theory Spec2Isabelle
  imports Complex_Main "HOL-Library.Word" "HOL-Library.Sublist"
begin

section \<open>The triangle tutorial program (main.cpp) as a function of its environment\<close>

text \<open>
  The program is one linear routine, \<open>main\<close>, and the helper \<open>processInput\<close>. Everything
  it does is a call into the windowing library (GLFW), the loader (GLAD), the graphics
  API (OpenGL) or a write to standard output. The model runs \<open>main\<close> against an
  environment that answers every call whose result the program reads, and returns the
  value \<open>main\<close> returns together with the sequence of calls made, in program order.
\<close>

subsection \<open>Values of the libraries' types\<close>

text \<open>\<open>GLuint\<close> and \<open>unsigned int\<close> handles are 32-bit words; a \<open>GLFWwindow*\<close> is an
  address, with \<open>NULL\<close> the address 0.\<close>

type_synonym GLuint = "32 word"
type_synonym pointer = nat

definition NULL :: pointer where
  "NULL = 0"

text \<open>The macros of glfw3.h and glad.h that the program names, kept symbolic. The list
  also holds the two usage hints that the comment at the upload mentions without
  using them.\<close>

datatype glenum =
    GLFW_CONTEXT_VERSION_MAJOR
  | GLFW_CONTEXT_VERSION_MINOR
  | GLFW_OPENGL_PROFILE
  | GLFW_OPENGL_CORE_PROFILE
  | GLFW_KEY_ESCAPE
  | GL_ARRAY_BUFFER
  | GL_STREAM_DRAW
  | GL_STATIC_DRAW
  | GL_DYNAMIC_DRAW
  | GL_VERTEX_SHADER
  | GL_FRAGMENT_SHADER
  | GL_COMPILE_STATUS
  | GL_LINK_STATUS
  | GL_COLOR_BUFFER_BIT
  | GL_TRIANGLES

text \<open>The argument of a window hint is either a number or a macro.\<close>

datatype hint_value = HintInt int | HintEnum glenum

text \<open>Key actions as \<open>glfwGetKey\<close> returns them (glfw3.h: release 0, press 1).\<close>

definition GLFW_RELEASE :: int where
  "GLFW_RELEASE = 0"

definition GLFW_PRESS :: int where
  "GLFW_PRESS = 1"

text \<open>A \<open>float\<close> argument is represented by the value its literal denotes; the program
  does no arithmetic on floats. One \<open>float\<close> occupies four bytes.\<close>

definition sizeof_float :: nat where
  "sizeof_float = 4"

subsection \<open>Library calls and output, as events\<close>

text \<open>
  One constructor for each library entry point. The first group is what \<open>main\<close> and
  \<open>processInput\<close> call; \<open>Cout\<close> is one output statement on \<open>std::cout\<close>, with the text
  it writes (\<open>std::endl\<close> writes a newline). \<open>GlViewport\<close> is the call of the resize
  callback. The remaining constructors are entry points of the same API that the program
  could call and does not: status query of a program object, activation of a program,
  draw calls, and later writes to a buffer.
\<close>

datatype call =
    GlfwInit
  | GlfwWindowHint glenum hint_value
  | GlfwCreateWindow int int string pointer pointer
  | GlfwTerminate
  | GlfwMakeContextCurrent pointer
  | GlfwSetFramebufferSizeCallback pointer
  | GladLoadGLLoader
  | GlGenBuffers nat
  | GlBindBuffer glenum GLuint
  | GlBufferData glenum nat "real list" glenum
  | GlCreateShader glenum
  | GlShaderSource GLuint nat string
  | GlCompileShader GLuint
  | GlGetShaderiv GLuint glenum
  | GlGetShaderInfoLog GLuint nat
  | GlCreateProgram
  | GlAttachShader GLuint GLuint
  | GlLinkProgram GLuint
  | GlfwWindowShouldClose pointer
  | GlfwGetKey pointer glenum
  | GlfwSetWindowShouldClose pointer bool
  | GlClearColor real real real real
  | GlClear glenum
  | GlfwSwapBuffers pointer
  | GlfwPollEvents
  | Cout string
  | GlViewport int int int int
  | GlGetProgramiv GLuint glenum
  | GlUseProgram GLuint
  | GlDrawArrays glenum int int
  | GlDrawElements glenum int
  | GlBufferSubData glenum nat "real list"

subsection \<open>The environment\<close>

text \<open>
  What the libraries answer. The fields \<open>fragment_compile_status\<close> and \<open>link_status\<close>
  are what the driver would report for the fragment shader and for the program object
  if it were asked. \<open>glfwGetKey_ret i\<close> is the answer to the key query of loop iteration
  \<open>i\<close>; \<open>close_requested i\<close> says whether the event poll of iteration \<open>i\<close> delivers a
  close request of the user, which sets the window's close flag; \<open>resize_events i\<close> are
  the framebuffer sizes (width, height) reported during that poll, for each of which
  the windowing library runs the registered resize callback.
\<close>

record env =
  glfwInit_ret :: int
  glfwCreateWindow_ret :: pointer
  initial_close_flag :: bool
  gladLoadGLLoader_ret :: int
  glGenBuffers_out :: GLuint
  glCreateShader_ret :: "glenum \<Rightarrow> GLuint"
  vertex_compile_status :: int
  vertex_info_log :: string
  fragment_compile_status :: int
  link_status :: int
  glCreateProgram_ret :: GLuint
  glfwGetKey_ret :: "nat \<Rightarrow> int"
  close_requested :: "nat \<Rightarrow> bool"
  resize_events :: "nat \<Rightarrow> (int \<times> int) list"

text \<open>The state of the window that the program reads and writes: its handle and its
  close flag.\<close>

record window =
  handle :: pointer
  shouldClose :: bool

text \<open>The outcome of a run: the value returned by \<open>main\<close>, or \<open>None\<close> while the render
  loop is still running, and the calls made so far.\<close>

record outcome =
  exit_status :: "int option"
  trace :: "call list"

subsection \<open>The embedded shader sources\<close>

text \<open>The two string literals, byte for byte: each line ends in a newline, the body line
  starts with a tab, and the literal ends in an explicit NUL (before the terminating NUL
  that the compiler adds).\<close>

definition vertexShaderSource :: string where
  "vertexShaderSource =
     ''#version 460 core\<newline>'' @
     ''layout (location=0) in vec3 aPos;\<newline>'' @
     ''void main()\<newline>'' @
     ''{\<newline>'' @
     [CHR 0x09] @ ''gl_Position = vec4(aPos.x, aPos.y, aPos.z, 1.0);\<newline>'' @
     ''}'' @ [CHR 0x00]"

definition fragmentShaderSource :: string where
  "fragmentShaderSource =
     ''#verson 460 core\<newline>'' @
     ''out vec4 FragColor;\<newline>'' @
     ''void main()\<newline>'' @
     ''{\<newline>'' @
     [CHR 0x09] @ ''FragColor = vec4(1.0f, 0.5f, 0.2f, 1.0f);\<newline>'' @
     ''}'' @ [CHR 0x00]"

text \<open>A \<open>const char*\<close> read as a C string: the characters before the first NUL. This is
  how \<open>glShaderSource\<close> (with a null length array) and \<open>operator<<\<close> read their
  argument.\<close>

definition c_str :: "string \<Rightarrow> string" where
  "c_str s = takeWhile (\<lambda>c. c \<noteq> CHR 0x00) s"

text \<open>The first line of a text: the characters before the first newline.\<close>

definition first_line :: "string \<Rightarrow> string" where
  "first_line s = takeWhile (\<lambda>c. c \<noteq> CHR ''\<newline>'') s"

subsection \<open>The routine\<close>

text \<open>The local array \<open>verticies\<close> of \<open>main\<close>.\<close>

definition verticies :: "real list" where
  "verticies =
    [-0.5, -0.5, 0.0,
      0.5, -0.5, 0.0,
      0.0,  0.5, 0.0]"

definition sizeof_verticies :: nat where
  "sizeof_verticies = length verticies * sizeof_float"

text \<open>\<open>glGetShaderInfoLog(shader, bufSize, NULL, infoLog)\<close> stores at most \<open>bufSize - 1\<close>
  characters of the driver's log and a terminating NUL (the contract of the OpenGL entry
  point). The result is the content of \<open>infoLog\<close> up to that NUL.\<close>

definition glGetShaderInfoLog :: "nat \<Rightarrow> string \<Rightarrow> string" where
  "glGetShaderInfoLog bufSize driver_log = take (bufSize - 1) (c_str driver_log)"

text \<open>The resize callback \<open>framebuffer_size_callback\<close>, registered by \<open>main\<close>.\<close>

definition framebuffer_size_callback :: "pointer \<Rightarrow> int \<Rightarrow> int \<Rightarrow> call list" where
  "framebuffer_size_callback window width height = [GlViewport 0 0 width height]"

text \<open>\<open>processInput\<close>: one key query; on \<open>GLFW_PRESS\<close> the close flag is set.\<close>

definition processInput :: "env \<Rightarrow> nat \<Rightarrow> window \<Rightarrow> window \<times> call list" where
  "processInput e i w =
     (if glfwGetKey_ret e i = GLFW_PRESS
      then (w\<lparr>shouldClose := True\<rparr>,
            [GlfwGetKey (handle w) GLFW_KEY_ESCAPE,
             GlfwSetWindowShouldClose (handle w) True])
      else (w, [GlfwGetKey (handle w) GLFW_KEY_ESCAPE]))"

text \<open>\<open>glfwPollEvents\<close> in iteration \<open>i\<close>: a close request of the user sets the flag
  (polling never clears it), and the resize callback runs once for each reported
  framebuffer size. The result is the window and the calls made by the callback.\<close>

definition glfwPollEvents :: "env \<Rightarrow> nat \<Rightarrow> window \<Rightarrow> window \<times> call list" where
  "glfwPollEvents e i w =
     (w\<lparr>shouldClose := shouldClose w \<or> close_requested e i\<rparr>,
      concat (map (\<lambda>(width, height). framebuffer_size_callback (handle w) width height)
                  (resize_events e i)))"

text \<open>
  The render loop, \<open>while (!glfwWindowShouldClose(window)) { ... }\<close>. The first argument
  bounds how many times the loop condition is evaluated; the loop itself has no bound.
  The result is the window at loop exit (\<open>None\<close> when the bound is reached first) and the
  calls made, those of the resize callback during the event poll included. \<open>i\<close> counts
  the iterations.
\<close>

fun render_loop :: "nat \<Rightarrow> env \<Rightarrow> nat \<Rightarrow> window \<Rightarrow> window option \<times> call list" where
  "render_loop 0 e i w = (None, [])"
| "render_loop (Suc n) e i w =
     (if shouldClose w then (Some w, [GlfwWindowShouldClose (handle w)])
      else
        let (w1, input_calls) = processInput e i w;
            (w2, callback_calls) = glfwPollEvents e i w1;
            (r, rest) = render_loop n e (Suc i) w2
        in (r, [GlfwWindowShouldClose (handle w)] @ input_calls @
               [GlClearColor 0.2 0.3 0.3 1.0,
                GlClear GL_COLOR_BUFFER_BIT,
                GlfwSwapBuffers (handle w),
                GlfwPollEvents] @ callback_calls @ rest))"

text \<open>The calls of \<open>main\<close> up to and including window creation.\<close>

definition bootstrap_calls :: "call list" where
  "bootstrap_calls =
    [GlfwInit,
     GlfwWindowHint GLFW_CONTEXT_VERSION_MAJOR (HintInt 4),
     GlfwWindowHint GLFW_CONTEXT_VERSION_MINOR (HintInt 6),
     GlfwWindowHint GLFW_OPENGL_PROFILE (HintEnum GLFW_OPENGL_CORE_PROFILE),
     GlfwCreateWindow 800 600 ''LearnOpenGL'' NULL NULL]"

text \<open>The geometry upload: the buffer id that \<open>glGenBuffers\<close> stored in \<open>VBO\<close> is bound
  and the array is copied.\<close>

definition upload_calls :: "env \<Rightarrow> call list" where
  "upload_calls e =
    (let VBO = glGenBuffers_out e in
     [GlGenBuffers 1,
      GlBindBuffer GL_ARRAY_BUFFER VBO,
      GlBufferData GL_ARRAY_BUFFER sizeof_verticies verticies GL_STATIC_DRAW])"

text \<open>The vertex shader: create, source, compile, query the compile status into
  \<open>success\<close>; when \<open>success\<close> is zero, fetch the log into \<open>infoLog[512]\<close> and print it.\<close>

definition vertex_shader_calls :: "env \<Rightarrow> call list" where
  "vertex_shader_calls e =
    (let vertexShader = glCreateShader_ret e GL_VERTEX_SHADER;
         success = vertex_compile_status e
     in [GlCreateShader GL_VERTEX_SHADER,
         GlShaderSource vertexShader 1 (c_str vertexShaderSource),
         GlCompileShader vertexShader,
         GlGetShaderiv vertexShader GL_COMPILE_STATUS] @
        (if success = 0
         then (let infoLog = glGetShaderInfoLog 512 (vertex_info_log e)
               in [GlGetShaderInfoLog vertexShader 512,
                   Cout (''ERROR::SHADER::VERTEX::COMPILATION::FAILED\<newline>'' @
                         infoLog @ ''\<newline>'')])
         else []))"

text \<open>The fragment shader and the program object: create, source, compile; create the
  program, attach both shaders, link.\<close>

definition fragment_and_link_calls :: "env \<Rightarrow> call list" where
  "fragment_and_link_calls e =
    (let vertexShader = glCreateShader_ret e GL_VERTEX_SHADER;
         fragmentShader = glCreateShader_ret e GL_FRAGMENT_SHADER;
         shaderProgram = glCreateProgram_ret e
     in [GlCreateShader GL_FRAGMENT_SHADER,
         GlShaderSource fragmentShader 1 (c_str fragmentShaderSource),
         GlCompileShader fragmentShader,
         GlCreateProgram,
         GlAttachShader shaderProgram vertexShader,
         GlAttachShader shaderProgram fragmentShader,
         GlLinkProgram shaderProgram])"

text \<open>\<open>main\<close>. The bound is passed on to the render loop.\<close>

definition main :: "nat \<Rightarrow> env \<Rightarrow> outcome" where
  "main fuel e =
    (let window = glfwCreateWindow_ret e in
     if window = NULL
     then \<lparr>exit_status = Some (- 1),
           trace = bootstrap_calls @
                   [Cout ''Failed to create GLFW window\<newline>'', GlfwTerminate]\<rparr>
     else if gladLoadGLLoader_ret e = 0
     then \<lparr>exit_status = Some (- 1),
           trace = bootstrap_calls @
                   [GlfwMakeContextCurrent window,
                    GlfwSetFramebufferSizeCallback window,
                    GladLoadGLLoader,
                    Cout ''Failed to initialize GLAD\<newline>'']\<rparr>
     else
       let setup = bootstrap_calls @
                   [GlfwMakeContextCurrent window,
                    GlfwSetFramebufferSizeCallback window,
                    GladLoadGLLoader] @
                   upload_calls e @ vertex_shader_calls e @ fragment_and_link_calls e;
           w0 = \<lparr>handle = window, shouldClose = initial_close_flag e\<rparr>
       in case render_loop fuel e 0 w0 of
            (None, loop_calls) \<Rightarrow>
              \<lparr>exit_status = None, trace = setup @ loop_calls\<rparr>
          | (Some w, loop_calls) \<Rightarrow>
              \<lparr>exit_status = Some 0, trace = setup @ loop_calls @ [GlfwTerminate]\<rparr>)"

subsection \<open>Classes of calls\<close>

text \<open>Entry points of the graphics API (the \<open>gl...\<close> functions), as opposed to the
  windowing library, the loader and standard output.\<close>

fun is_gl_call :: "call \<Rightarrow> bool" where
  "is_gl_call (GlGenBuffers _) = True"
| "is_gl_call (GlBindBuffer _ _) = True"
| "is_gl_call (GlBufferData _ _ _ _) = True"
| "is_gl_call (GlCreateShader _) = True"
| "is_gl_call (GlShaderSource _ _ _) = True"
| "is_gl_call (GlCompileShader _) = True"
| "is_gl_call (GlGetShaderiv _ _) = True"
| "is_gl_call (GlGetShaderInfoLog _ _) = True"
| "is_gl_call GlCreateProgram = True"
| "is_gl_call (GlAttachShader _ _) = True"
| "is_gl_call (GlLinkProgram _) = True"
| "is_gl_call (GlClearColor _ _ _ _) = True"
| "is_gl_call (GlClear _) = True"
| "is_gl_call (GlGetProgramiv _ _) = True"
| "is_gl_call (GlUseProgram _) = True"
| "is_gl_call (GlDrawArrays _ _ _) = True"
| "is_gl_call (GlDrawElements _ _) = True"
| "is_gl_call (GlBufferSubData _ _ _) = True"
| "is_gl_call (GlViewport _ _ _ _) = True"
| "is_gl_call _ = False"

text \<open>Activation of a program object, and draw calls.\<close>

fun is_use_or_draw :: "call \<Rightarrow> bool" where
  "is_use_or_draw (GlUseProgram _) = True"
| "is_use_or_draw (GlDrawArrays _ _ _) = True"
| "is_use_or_draw (GlDrawElements _ _) = True"
| "is_use_or_draw _ = False"

text \<open>Calls that create, bind or write a device buffer.\<close>

fun is_buffer_call :: "call \<Rightarrow> bool" where
  "is_buffer_call (GlGenBuffers _) = True"
| "is_buffer_call (GlBindBuffer _ _) = True"
| "is_buffer_call (GlBufferData _ _ _ _) = True"
| "is_buffer_call (GlBufferSubData _ _ _) = True"
| "is_buffer_call _ = False"


text \<open>Status queries on a shader or program object, and output.\<close>

fun is_query_or_output :: "call \<Rightarrow> bool" where
  "is_query_or_output (GlGetShaderiv _ _) = True"
| "is_query_or_output (GlGetProgramiv _ _) = True"
| "is_query_or_output (GlGetShaderInfoLog _ _) = True"
| "is_query_or_output (Cout _) = True"
| "is_query_or_output _ = False"

text \<open>The call that the resize callback makes.\<close>

fun is_viewport_call :: "call \<Rightarrow> bool" where
  "is_viewport_call (GlViewport _ _ _ _) = True"
| "is_viewport_call _ = False"

text \<open>Reads and writes of the window's close flag.\<close>

fun is_close_flag_call :: "call \<Rightarrow> bool" where
  "is_close_flag_call (GlfwWindowShouldClose _) = True"
| "is_close_flag_call (GlfwSetWindowShouldClose _ _) = True"
| "is_close_flag_call _ = False"

text \<open>The calls of one frame: key query, clear colour, clear, buffer swap, event
  poll.\<close>

fun is_frame_call :: "call \<Rightarrow> bool" where
  "is_frame_call (GlfwGetKey _ _) = True"
| "is_frame_call (GlClearColor _ _ _ _) = True"
| "is_frame_call (GlClear _) = True"
| "is_frame_call (GlfwSwapBuffers _) = True"
| "is_frame_call GlfwPollEvents = True"
| "is_frame_call _ = False"

text \<open>The evaluation of the loop condition, and the write of the close flag.\<close>

fun is_condition_check :: "call \<Rightarrow> bool" where
  "is_condition_check (GlfwWindowShouldClose _) = True"
| "is_condition_check _ = False"

fun is_close_flag_write :: "call \<Rightarrow> bool" where
  "is_close_flag_write (GlfwSetWindowShouldClose _ _) = True"
| "is_close_flag_write _ = False"

subsection \<open>A sample environment\<close>

text \<open>Everything succeeds, no key is ever pressed, the framebuffer is resized during
  the first event poll, and the user closes the window during the second.\<close>

definition sample_env :: env where
  "sample_env =
    \<lparr>glfwInit_ret = 1,
     glfwCreateWindow_ret = 4096,
     initial_close_flag = False,
     gladLoadGLLoader_ret = 1,
     glGenBuffers_out = 1,
     glCreateShader_ret = (\<lambda>t. if t = GL_VERTEX_SHADER then 1 else 2),
     vertex_compile_status = 1,
     vertex_info_log = [],
     fragment_compile_status = 1,
     link_status = 1,
     glCreateProgram_ret = 3,
     glfwGetKey_ret = (\<lambda>i. GLFW_RELEASE),
     close_requested = (\<lambda>i. i = 1),
     resize_events = (\<lambda>i. if i = 0 then [(1024, 768)] else [])\<rparr>"

section \<open>Properties\<close>

subsection \<open>Facts about the render loop\<close>

text \<open>The window handle is the local variable \<open>window\<close>; no step of the loop changes
  it.\<close>

lemma processInput_handle: "handle (fst (processInput e i w)) = handle w"
  by (simp add: processInput_def)

lemma glfwPollEvents_handle: "handle (fst (glfwPollEvents e i w)) = handle w"
  by (simp add: glfwPollEvents_def)

lemma next_window_handle:
  "handle (fst (glfwPollEvents e i (fst (processInput e i w)))) = handle w"
  by (simp add: processInput_handle glfwPollEvents_handle)

text \<open>During the event poll only the resize callback makes calls, and these are
  viewport calls.\<close>

lemma callback_calls_viewport:
  "c \<in> set (snd (glfwPollEvents e i w)) \<Longrightarrow> is_viewport_call c"
  by (auto simp: glfwPollEvents_def framebuffer_size_callback_def)

lemma viewport_call_cases:
  "is_viewport_call c \<Longrightarrow> \<exists>x y width height. c = GlViewport x y width height"
  by (cases c) simp_all

lemma callback_calls_filter_nil:
  assumes "\<And>x y width height. \<not> P (GlViewport x y width height)"
  shows "filter P (snd (glfwPollEvents e i w)) = []"
proof -
  have "\<not> P c" if "c \<in> set (snd (glfwPollEvents e i w))" for c
    using viewport_call_cases [OF callback_calls_viewport [OF that]] assms by blast
  then show ?thesis by (simp add: filter_empty_conv)
qed

lemma callback_calls_map:
  "snd (glfwPollEvents e i w) =
     map (\<lambda>(width, height). GlViewport 0 0 width height) (resize_events e i)"
proof -
  have "concat (map (\<lambda>(width, height). [GlViewport 0 0 width height]) xs) =
      map (\<lambda>(width, height). GlViewport 0 0 width height) xs" for xs
    by (induction xs) auto
  then show ?thesis
    by (simp add: glfwPollEvents_def framebuffer_size_callback_def)
qed

text \<open>The two branches of one evaluation of the loop condition.\<close>

lemma render_loop_Suc_running:
  "\<not> shouldClose w \<Longrightarrow>
   render_loop (Suc n) e i w =
     (fst (render_loop n e (Suc i) (fst (glfwPollEvents e i (fst (processInput e i w))))),
      [GlfwWindowShouldClose (handle w)] @ snd (processInput e i w) @
      [GlClearColor 0.2 0.3 0.3 1.0, GlClear GL_COLOR_BUFFER_BIT,
       GlfwSwapBuffers (handle w), GlfwPollEvents] @
      snd (glfwPollEvents e i (fst (processInput e i w))) @
      snd (render_loop n e (Suc i) (fst (glfwPollEvents e i (fst (processInput e i w))))))"
  by (simp add: split_beta Let_def)

lemma render_loop_Suc_closed:
  "shouldClose w \<Longrightarrow>
   render_loop (Suc n) e i w = (Some w, [GlfwWindowShouldClose (handle w)])"
  by simp

text \<open>Every call of the loop is one of seven fixed calls or a viewport call of the
  callback.\<close>

lemma render_loop_calls:
  "c \<in> set (snd (render_loop n e i w)) \<Longrightarrow>
   c \<in> {GlfwWindowShouldClose (handle w), GlfwGetKey (handle w) GLFW_KEY_ESCAPE,
        GlfwSetWindowShouldClose (handle w) True, GlClearColor 0.2 0.3 0.3 1.0,
        GlClear GL_COLOR_BUFFER_BIT, GlfwSwapBuffers (handle w), GlfwPollEvents} \<or>
   is_viewport_call c"
proof (induction n arbitrary: i w)
  case 0
  then show ?case by simp
next
  case (Suc n)
  show ?case
  proof (cases "shouldClose w")
    case True
    with Suc.prems show ?thesis by simp
  next
    case False
    let ?w2 = "fst (glfwPollEvents e i (fst (processInput e i w)))"
    from Suc.prems have
      "c \<in> {GlfwWindowShouldClose (handle w), GlClearColor 0.2 0.3 0.3 1.0,
             GlClear GL_COLOR_BUFFER_BIT, GlfwSwapBuffers (handle w), GlfwPollEvents} \<or>
       c \<in> set (snd (processInput e i w)) \<or>
       c \<in> set (snd (glfwPollEvents e i (fst (processInput e i w)))) \<or>
       c \<in> set (snd (render_loop n e (Suc i) ?w2))"
      unfolding render_loop_Suc_running [OF False] by auto
    then consider
        "c \<in> {GlfwWindowShouldClose (handle w), GlClearColor 0.2 0.3 0.3 1.0,
               GlClear GL_COLOR_BUFFER_BIT, GlfwSwapBuffers (handle w), GlfwPollEvents}"
      | "c \<in> set (snd (processInput e i w))"
      | "c \<in> set (snd (glfwPollEvents e i (fst (processInput e i w))))"
      | "c \<in> set (snd (render_loop n e (Suc i) ?w2))"
      by blast
    then show ?thesis
    proof cases
      case 1
      then show ?thesis by auto
    next
      case 2
      then show ?thesis by (auto simp: processInput_def split: if_splits)
    next
      case 3
      then show ?thesis by (simp add: callback_calls_viewport)
    next
      case 4
      from Suc.IH [OF this] show ?thesis by (simp add: next_window_handle)
    qed
  qed
qed

lemma render_loop_no_call:
  assumes "\<not> P (GlfwWindowShouldClose (handle w))"
    and "\<not> P (GlfwGetKey (handle w) GLFW_KEY_ESCAPE)"
    and "\<not> P (GlfwSetWindowShouldClose (handle w) True)"
    and "\<not> P (GlClearColor 0.2 0.3 0.3 1.0)"
    and "\<not> P (GlClear GL_COLOR_BUFFER_BIT)"
    and "\<not> P (GlfwSwapBuffers (handle w))"
    and "\<not> P GlfwPollEvents"
    and "\<And>x y width height. \<not> P (GlViewport x y width height)"
    and "c \<in> set (snd (render_loop n e i w))"
  shows "\<not> P c"
proof -
  from render_loop_calls [OF assms(9)] consider
      "c \<in> {GlfwWindowShouldClose (handle w), GlfwGetKey (handle w) GLFW_KEY_ESCAPE,
        GlfwSetWindowShouldClose (handle w) True, GlClearColor 0.2 0.3 0.3 1.0,
        GlClear GL_COLOR_BUFFER_BIT, GlfwSwapBuffers (handle w), GlfwPollEvents}"
    | "is_viewport_call c"
    by blast
  then show ?thesis
  proof cases
    case 1
    with assms(1-7) show ?thesis by blast
  next
    case 2
    from viewport_call_cases [OF this] assms(8) show ?thesis by blast
  qed
qed

lemma render_loop_filter_nil:
  assumes "\<not> P (GlfwWindowShouldClose (handle w))"
    and "\<not> P (GlfwGetKey (handle w) GLFW_KEY_ESCAPE)"
    and "\<not> P (GlfwSetWindowShouldClose (handle w) True)"
    and "\<not> P (GlClearColor 0.2 0.3 0.3 1.0)"
    and "\<not> P (GlClear GL_COLOR_BUFFER_BIT)"
    and "\<not> P (GlfwSwapBuffers (handle w))"
    and "\<not> P GlfwPollEvents"
    and "\<And>x y width height. \<not> P (GlViewport x y width height)"
  shows "filter P (snd (render_loop n e i w)) = []"
  using render_loop_no_call [of P w _ n e i, OF assms] by (simp add: filter_empty_conv)


text \<open>The calls of the loop body itself, iteration by iteration.\<close>

lemma render_loop_frames:
  "\<exists>k. k \<le> n \<and>
     filter (\<lambda>c. \<not> is_close_flag_call c \<and> \<not> is_viewport_call c)
       (snd (render_loop n e i w)) =
     concat (replicate k
       [GlfwGetKey (handle w) GLFW_KEY_ESCAPE, GlClearColor 0.2 0.3 0.3 1.0,
        GlClear GL_COLOR_BUFFER_BIT, GlfwSwapBuffers (handle w), GlfwPollEvents])"
proof (induction n arbitrary: i w)
  case 0
  show ?case by simp
next
  case (Suc n)
  let ?frame = "[GlfwGetKey (handle w) GLFW_KEY_ESCAPE, GlClearColor 0.2 0.3 0.3 1.0,
        GlClear GL_COLOR_BUFFER_BIT, GlfwSwapBuffers (handle w), GlfwPollEvents]"
  let ?own = "\<lambda>c. \<not> is_close_flag_call c \<and> \<not> is_viewport_call c"
  show ?case
  proof (cases "shouldClose w")
    case True
    then have "filter ?own (snd (render_loop (Suc n) e i w)) = concat (replicate 0 ?frame)"
      by simp
    then show ?thesis by (intro exI [of _ 0]) simp
  next
    case False
    let ?w2 = "fst (glfwPollEvents e i (fst (processInput e i w)))"
    from Suc.IH [of "Suc i" ?w2]
    obtain k where k: "k \<le> n"
      "filter ?own (snd (render_loop n e (Suc i) ?w2)) = concat (replicate k ?frame)"
      unfolding next_window_handle by (elim exE conjE)
    have cb: "filter ?own (snd (glfwPollEvents e i (fst (processInput e i w)))) = []"
      by (rule callback_calls_filter_nil) simp
    have inp: "filter ?own (snd (processInput e i w)) = [GlfwGetKey (handle w) GLFW_KEY_ESCAPE]"
      by (simp add: processInput_def)
    have "filter ?own (snd (render_loop (Suc n) e i w)) = concat (replicate (Suc k) ?frame)"
      unfolding render_loop_Suc_running [OF False]
      by (simp add: k(2) cb inp)
    with k(1) show ?thesis by (intro exI [of _ "Suc k"]) simp
  qed
qed

lemma filter_gl_calls_after:
  "filter (\<lambda>c. is_gl_call c \<and> \<not> is_viewport_call c)
     (filter (\<lambda>c. \<not> is_close_flag_call c \<and> \<not> is_viewport_call c) xs) =
   filter (\<lambda>c. is_gl_call c \<and> \<not> is_viewport_call c) xs"
proof -
  have "is_gl_call c \<Longrightarrow> \<not> is_close_flag_call c" for c
    by (cases c) simp_all
  then show ?thesis
    by (induction xs) auto
qed

lemma render_loop_gl_calls:
  "\<exists>k. k \<le> n \<and>
     filter (\<lambda>c. is_gl_call c \<and> \<not> is_viewport_call c) (snd (render_loop n e i w)) =
     concat (replicate k [GlClearColor 0.2 0.3 0.3 1.0, GlClear GL_COLOR_BUFFER_BIT])"
proof -
  let ?frame = "[GlfwGetKey (handle w) GLFW_KEY_ESCAPE, GlClearColor 0.2 0.3 0.3 1.0,
        GlClear GL_COLOR_BUFFER_BIT, GlfwSwapBuffers (handle w), GlfwPollEvents]"
  let ?gl = "\<lambda>c. is_gl_call c \<and> \<not> is_viewport_call c"
  from render_loop_frames [of n e i w] obtain k where k: "k \<le> n"
    "filter (\<lambda>c. \<not> is_close_flag_call c \<and> \<not> is_viewport_call c)
       (snd (render_loop n e i w)) = concat (replicate k ?frame)"
    by blast
  have "filter ?gl (snd (render_loop n e i w)) = filter ?gl (concat (replicate k ?frame))"
    using filter_gl_calls_after [of "snd (render_loop n e i w)"] k(2) by simp
  also have "\<dots> = concat (replicate k
      [GlClearColor 0.2 0.3 0.3 1.0, GlClear GL_COLOR_BUFFER_BIT])"
    by (simp add: filter_concat)
  finally show ?thesis using k(1) by blast
qed

lemma filter_frame_calls_after:
  "filter is_frame_call
     (filter (\<lambda>c. \<not> is_close_flag_call c \<and> \<not> is_viewport_call c) xs) =
   filter is_frame_call xs"
proof -
  have "is_frame_call c \<Longrightarrow> \<not> is_close_flag_call c \<and> \<not> is_viewport_call c" for c
    by (cases c) simp_all
  then show ?thesis
    by (induction xs) auto
qed

lemma render_loop_frame_calls:
  "\<exists>k. k \<le> n \<and> filter is_frame_call (snd (render_loop n e i w)) =
     concat (replicate k
       [GlfwGetKey (handle w) GLFW_KEY_ESCAPE, GlClearColor 0.2 0.3 0.3 1.0,
        GlClear GL_COLOR_BUFFER_BIT, GlfwSwapBuffers (handle w), GlfwPollEvents])"
proof -
  let ?frame = "[GlfwGetKey (handle w) GLFW_KEY_ESCAPE, GlClearColor 0.2 0.3 0.3 1.0,
        GlClear GL_COLOR_BUFFER_BIT, GlfwSwapBuffers (handle w), GlfwPollEvents]"
  from render_loop_frames [of n e i w] obtain k where k: "k \<le> n"
    "filter (\<lambda>c. \<not> is_close_flag_call c \<and> \<not> is_viewport_call c)
       (snd (render_loop n e i w)) = concat (replicate k ?frame)"
    by blast
  have "filter is_frame_call (snd (render_loop n e i w)) =
      filter is_frame_call (concat (replicate k ?frame))"
    using filter_frame_calls_after [of "snd (render_loop n e i w)"] k(2) by simp
  also have "\<dots> = concat (replicate k ?frame)"
    by (simp add: filter_concat)
  finally show ?thesis using k(1) by blast
qed

text \<open>The loop is left only with the close flag set.\<close>

lemma render_loop_exit_window:
  "fst (render_loop n e i w) = Some w' \<Longrightarrow> shouldClose w' \<and> handle w' = handle w"
proof (induction n arbitrary: i w)
  case 0
  then show ?case by simp
next
  case (Suc n)
  show ?case
  proof (cases "shouldClose w")
    case True
    with Suc.prems show ?thesis by simp
  next
    case False
    from Suc.prems have
      "fst (render_loop n e (Suc i) (fst (glfwPollEvents e i (fst (processInput e i w))))) =
       Some w'"
      unfolding render_loop_Suc_running [OF False] by simp
    from Suc.IH [OF this] show ?thesis by (simp add: next_window_handle)
  qed
qed

text \<open>The loop reads three things of the environment.\<close>

lemma render_loop_env_cong:
  "glfwGetKey_ret e' = glfwGetKey_ret e \<Longrightarrow> close_requested e' = close_requested e \<Longrightarrow>
   resize_events e' = resize_events e \<Longrightarrow>
   render_loop n e' i w = render_loop n e i w"
  by (induction n arbitrary: i w) (simp_all add: processInput_def glfwPollEvents_def)

text \<open>Once Escape is reported or a close request arrives in iteration \<open>i + j\<close>, the loop
  is left when the condition may be evaluated \<open>j + 2\<close> times.\<close>

lemma render_loop_exits:
  "glfwGetKey_ret e (i + j) = GLFW_PRESS \<or> close_requested e (i + j) \<Longrightarrow>
   fst (render_loop (Suc (Suc (j + m))) e i w) \<noteq> None"
proof (induction j arbitrary: i w)
  case 0
  show ?case
  proof (cases "shouldClose w")
    case True
    then show ?thesis by simp
  next
    case False
    have "shouldClose (fst (glfwPollEvents e i (fst (processInput e i w))))"
      using 0 by (auto simp: glfwPollEvents_def processInput_def)
    then show ?thesis
      unfolding render_loop_Suc_running [OF False] by simp
  qed
next
  case (Suc j)
  show ?case
  proof (cases "shouldClose w")
    case True
    then show ?thesis by simp
  next
    case False
    from Suc.prems
    have "glfwGetKey_ret e (Suc i + j) = GLFW_PRESS \<or> close_requested e (Suc i + j)"
      by simp
    from Suc.IH [OF this, of "fst (glfwPollEvents e i (fst (processInput e i w)))"]
    show ?thesis
      unfolding add_Suc render_loop_Suc_running [OF False] by simp
  qed
qed

lemma render_loop_exits_le:
  assumes "glfwGetKey_ret e (i + j) = GLFW_PRESS \<or> close_requested e (i + j)"
    and "j + 2 \<le> n"
  shows "fst (render_loop n e i w) \<noteq> None"
proof -
  from assms(2) obtain m where m: "n = Suc (Suc (j + m))"
    by (auto simp: le_iff_add)
  show ?thesis
    unfolding m by (rule render_loop_exits [OF assms(1)])
qed

text \<open>The loop call by call: each evaluation of the condition that finds the flag
  clear is followed by one whole frame; the run of the loop ends with the evaluation
  that finds the flag set, or with the bound.\<close>

lemma render_loop_iterations:
  "\<exists>k. filter (\<lambda>c. \<not> is_close_flag_write c \<and> \<not> is_viewport_call c)
          (snd (render_loop n e i w)) =
        concat (replicate k
          [GlfwWindowShouldClose (handle w),
           GlfwGetKey (handle w) GLFW_KEY_ESCAPE, GlClearColor 0.2 0.3 0.3 1.0,
           GlClear GL_COLOR_BUFFER_BIT, GlfwSwapBuffers (handle w), GlfwPollEvents]) @
        (case fst (render_loop n e i w) of
           None \<Rightarrow> [] | Some w' \<Rightarrow> [GlfwWindowShouldClose (handle w)]) \<and>
      (fst (render_loop n e i w) = None \<longrightarrow> k = n) \<and>
      (fst (render_loop n e i w) \<noteq> None \<longrightarrow> k < n)"
proof (induction n arbitrary: i w)
  case 0
  show ?case by simp
next
  case (Suc n)
  let ?iter = "[GlfwWindowShouldClose (handle w),
           GlfwGetKey (handle w) GLFW_KEY_ESCAPE, GlClearColor 0.2 0.3 0.3 1.0,
           GlClear GL_COLOR_BUFFER_BIT, GlfwSwapBuffers (handle w), GlfwPollEvents]"
  let ?own = "\<lambda>c. \<not> is_close_flag_write c \<and> \<not> is_viewport_call c"
  show ?case
  proof (cases "shouldClose w")
    case True
    then show ?thesis by (intro exI [of _ 0]) simp
  next
    case False
    let ?w2 = "fst (glfwPollEvents e i (fst (processInput e i w)))"
    let ?r = "render_loop n e (Suc i) ?w2"
    from Suc.IH [of "Suc i" ?w2]
    obtain k where k:
      "filter ?own (snd ?r) = concat (replicate k ?iter) @
         (case fst ?r of None \<Rightarrow> [] | Some w' \<Rightarrow> [GlfwWindowShouldClose (handle w)])"
      "fst ?r = None \<longrightarrow> k = n" "fst ?r \<noteq> None \<longrightarrow> k < n"
      unfolding next_window_handle by (elim exE conjE)
    have cb: "filter ?own (snd (glfwPollEvents e i (fst (processInput e i w)))) = []"
      by (rule callback_calls_filter_nil) simp
    have inp: "filter ?own (snd (processInput e i w)) = [GlfwGetKey (handle w) GLFW_KEY_ESCAPE]"
      by (simp add: processInput_def)
    have res: "fst (render_loop (Suc n) e i w) = fst ?r"
      unfolding render_loop_Suc_running [OF False] by simp
    have tr: "filter ?own (snd (render_loop (Suc n) e i w)) =
        concat (replicate (Suc k) ?iter) @
        (case fst ?r of None \<Rightarrow> [] | Some w' \<Rightarrow> [GlfwWindowShouldClose (handle w)])"
      unfolding render_loop_Suc_running [OF False]
      by (simp add: k(1) cb inp)
    show ?thesis
      unfolding res using tr k(2,3) by (intro exI [of _ "Suc k"]) simp
  qed
qed

lemma filter_loop_calls_after:
  "filter (\<lambda>c. is_condition_check c \<or> is_frame_call c)
     (filter (\<lambda>c. \<not> is_close_flag_write c \<and> \<not> is_viewport_call c) xs) =
   filter (\<lambda>c. is_condition_check c \<or> is_frame_call c) xs"
proof -
  have "is_condition_check c \<or> is_frame_call c \<Longrightarrow>
      \<not> is_close_flag_write c \<and> \<not> is_viewport_call c" for c
    by (cases c) simp_all
  then show ?thesis
    by (induction xs) auto
qed



subsection \<open>Facts about \<open>main\<close>\<close>

text \<open>The three paths through \<open>main\<close>: no window, no function pointers, and the
  path that reaches the render loop.\<close>

lemma main_no_window:
  "glfwCreateWindow_ret e = NULL \<Longrightarrow>
   main fuel e =
     \<lparr>exit_status = Some (- 1),
      trace = bootstrap_calls @ [Cout ''Failed to create GLFW window\<newline>'', GlfwTerminate]\<rparr>"
  by (simp add: main_def Let_def)

lemma main_no_loader:
  "glfwCreateWindow_ret e \<noteq> NULL \<Longrightarrow> gladLoadGLLoader_ret e = 0 \<Longrightarrow>
   main fuel e =
     \<lparr>exit_status = Some (- 1),
      trace = bootstrap_calls @
              [GlfwMakeContextCurrent (glfwCreateWindow_ret e),
               GlfwSetFramebufferSizeCallback (glfwCreateWindow_ret e),
               GladLoadGLLoader,
               Cout ''Failed to initialize GLAD\<newline>'']\<rparr>"
  by (simp add: main_def Let_def)

lemma main_running:
  assumes "glfwCreateWindow_ret e \<noteq> NULL" and "gladLoadGLLoader_ret e \<noteq> 0"
  shows "main fuel e =
     \<lparr>exit_status =
        (case fst (render_loop fuel e 0
                \<lparr>handle = glfwCreateWindow_ret e, shouldClose = initial_close_flag e\<rparr>) of
           None \<Rightarrow> None | Some w \<Rightarrow> Some 0),
      trace = bootstrap_calls @
              [GlfwMakeContextCurrent (glfwCreateWindow_ret e),
               GlfwSetFramebufferSizeCallback (glfwCreateWindow_ret e),
               GladLoadGLLoader] @
              upload_calls e @ vertex_shader_calls e @ fragment_and_link_calls e @
              snd (render_loop fuel e 0
                \<lparr>handle = glfwCreateWindow_ret e, shouldClose = initial_close_flag e\<rparr>) @
              (case fst (render_loop fuel e 0
                \<lparr>handle = glfwCreateWindow_ret e, shouldClose = initial_close_flag e\<rparr>) of
                 None \<Rightarrow> [] | Some w \<Rightarrow> [GlfwTerminate])\<rparr>"
  using assms by (simp add: main_def Let_def split: prod.splits option.splits)

lemma main_env_cong:
  assumes "glfwCreateWindow_ret e' = glfwCreateWindow_ret e"
    and "initial_close_flag e' = initial_close_flag e"
    and "gladLoadGLLoader_ret e' = gladLoadGLLoader_ret e"
    and "glGenBuffers_out e' = glGenBuffers_out e"
    and "glCreateShader_ret e' = glCreateShader_ret e"
    and "vertex_compile_status e' = vertex_compile_status e"
    and "vertex_info_log e' = vertex_info_log e"
    and "glCreateProgram_ret e' = glCreateProgram_ret e"
    and "glfwGetKey_ret e' = glfwGetKey_ret e"
    and "close_requested e' = close_requested e"
    and "resize_events e' = resize_events e"
  shows "main fuel e' = main fuel e"
proof -
  have u: "upload_calls e' = upload_calls e"
    using assms by (simp add: upload_calls_def)
  have v: "vertex_shader_calls e' = vertex_shader_calls e"
    using assms by (simp add: vertex_shader_calls_def Let_def cong: if_cong)
  have f: "fragment_and_link_calls e' = fragment_and_link_calls e"
    using assms by (simp add: fragment_and_link_calls_def)
  have l: "render_loop fuel e' 0 w = render_loop fuel e 0 w" for w
    by (rule render_loop_env_cong) (simp_all add: assms)
  show ?thesis
    unfolding main_def u v f l assms(1,2,3) by (rule refl)
qed

lemma setup_filter_use_or_draw:
  "filter is_use_or_draw (upload_calls e @ vertex_shader_calls e @ fragment_and_link_calls e) = []"
  by (simp add: upload_calls_def vertex_shader_calls_def fragment_and_link_calls_def Let_def)

subsection \<open>Start-up and the two failure paths\<close>

text \<open>
  C10. The value returned by \<open>glfwInit\<close> is never looked at: a run with any other
  return value is the same run, call for call and with the same exit status, and every
  run starts with \<open>glfwInit\<close>, the three window hints and the creation of the window.
\<close>

theorem glfwInit_result_ignored:
  "main fuel (e\<lparr>glfwInit_ret := r\<rparr>) = main fuel e \<and>
   take 5 (trace (main fuel e)) =
     [GlfwInit,
      GlfwWindowHint GLFW_CONTEXT_VERSION_MAJOR (HintInt 4),
      GlfwWindowHint GLFW_CONTEXT_VERSION_MINOR (HintInt 6),
      GlfwWindowHint GLFW_OPENGL_PROFILE (HintEnum GLFW_OPENGL_CORE_PROFILE),
      GlfwCreateWindow 800 600 ''LearnOpenGL'' NULL NULL]"
proof
  show "main fuel (e\<lparr>glfwInit_ret := r\<rparr>) = main fuel e"
    by (rule main_env_cong) simp_all
  show "take 5 (trace (main fuel e)) =
     [GlfwInit,
      GlfwWindowHint GLFW_CONTEXT_VERSION_MAJOR (HintInt 4),
      GlfwWindowHint GLFW_CONTEXT_VERSION_MINOR (HintInt 6),
      GlfwWindowHint GLFW_OPENGL_PROFILE (HintEnum GLFW_OPENGL_CORE_PROFILE),
      GlfwCreateWindow 800 600 ''LearnOpenGL'' NULL NULL]"
    by (simp add: main_def bootstrap_calls_def Let_def split: prod.splits option.splits)
qed

text \<open>
  C7. \<open>main\<close> returns -1 exactly when window creation returns a null handle or the
  resolution of the OpenGL function pointers fails. On the first path the calls made are
  the bootstrap, the message \<open>Failed to create GLFW window\<close> and \<open>glfwTerminate\<close>; on
  the second the last thing done is the message \<open>Failed to initialize GLAD\<close>; neither
  path evaluates the loop condition. \<open>main\<close> returns 0 exactly when the render loop is
  reached and left, and the loop is left only with the close flag set. When the loop is
  reached and Escape is reported or a close request arrives in iteration \<open>j\<close>, \<open>main\<close>
  returns 0 as soon as the loop condition may be evaluated \<open>j + 2\<close> times.
\<close>

theorem exit_status_cases:
  "(exit_status (main fuel e) = Some (- 1) \<longleftrightarrow>
      glfwCreateWindow_ret e = NULL \<or> gladLoadGLLoader_ret e = 0) \<and>
   (exit_status (main fuel e) = Some 0 \<longleftrightarrow>
      glfwCreateWindow_ret e \<noteq> NULL \<and> gladLoadGLLoader_ret e \<noteq> 0 \<and>
      (\<exists>w. fst (render_loop fuel e 0
              \<lparr>handle = glfwCreateWindow_ret e, shouldClose = initial_close_flag e\<rparr>) = Some w \<and>
           shouldClose w)) \<and>
   (exit_status (main fuel e) = None \<or> exit_status (main fuel e) = Some 0 \<or>
      exit_status (main fuel e) = Some (- 1)) \<and>
   (glfwCreateWindow_ret e = NULL \<longrightarrow>
      trace (main fuel e) =
        bootstrap_calls @ [Cout ''Failed to create GLFW window\<newline>'', GlfwTerminate]) \<and>
   (glfwCreateWindow_ret e \<noteq> NULL \<and> gladLoadGLLoader_ret e = 0 \<longrightarrow>
      trace (main fuel e) =
        bootstrap_calls @
        [GlfwMakeContextCurrent (glfwCreateWindow_ret e),
         GlfwSetFramebufferSizeCallback (glfwCreateWindow_ret e),
         GladLoadGLLoader,
         Cout ''Failed to initialize GLAD\<newline>'']) \<and>
   (glfwCreateWindow_ret e \<noteq> NULL \<and> gladLoadGLLoader_ret e \<noteq> 0 \<and>
      (glfwGetKey_ret e j = GLFW_PRESS \<or> close_requested e j) \<and> j + 2 \<le> fuel \<longrightarrow>
      exit_status (main fuel e) = Some 0)"
proof (cases "glfwCreateWindow_ret e = NULL")
  case True
  then show ?thesis by (simp add: main_no_window)
next
  case window: False
  show ?thesis
  proof (cases "gladLoadGLLoader_ret e = 0")
    case True
    with window show ?thesis by (simp add: main_no_loader)
  next
    case False
    let ?w0 = "\<lparr>handle = glfwCreateWindow_ret e, shouldClose = initial_close_flag e\<rparr>"
    have exits: "fst (render_loop fuel e 0 ?w0) \<noteq> None"
      if "glfwGetKey_ret e j = GLFW_PRESS \<or> close_requested e j" and "j + 2 \<le> fuel"
      using render_loop_exits_le [of e 0 j fuel ?w0] that by simp
    have flag: "shouldClose w" if "fst (render_loop fuel e 0 ?w0) = Some w" for w
      using render_loop_exit_window [OF that] by simp
    show ?thesis
      unfolding main_running [OF window False]
      using window False exits flag by (auto split: option.splits)
  qed
qed

theorem exit_status_cases_witness:
  "glfwCreateWindow_ret sample_env \<noteq> NULL \<and>
   gladLoadGLLoader_ret sample_env \<noteq> 0 \<and>
   close_requested sample_env 1 \<and>
   exit_status (main 5 sample_env) = Some 0 \<and>
   glfwCreateWindow_ret (sample_env\<lparr>glfwCreateWindow_ret := NULL\<rparr>) = NULL \<and>
   exit_status (main 5 (sample_env\<lparr>glfwCreateWindow_ret := NULL\<rparr>)) = Some (- 1) \<and>
   gladLoadGLLoader_ret (sample_env\<lparr>gladLoadGLLoader_ret := 0\<rparr>) = 0 \<and>
   exit_status (main 5 (sample_env\<lparr>gladLoadGLLoader_ret := 0\<rparr>)) = Some (- 1)"
  using exit_status_cases [of 5 sample_env 1]
    exit_status_cases [of 5 "sample_env\<lparr>glfwCreateWindow_ret := NULL\<rparr>" 1]
    exit_status_cases [of 5 "sample_env\<lparr>gladLoadGLLoader_ret := 0\<rparr>" 1]
  by (simp add: sample_env_def NULL_def)

text \<open>
  C8. When window creation fails, \<open>glfwTerminate\<close> is called once, as the last call
  before \<open>main\<close> returns -1. When the resolution of the function pointers fails,
  \<open>main\<close> returns -1 without any call of \<open>glfwTerminate\<close>: the last thing it does is
  print its message.
\<close>

theorem terminate_on_failure_paths:
  "(glfwCreateWindow_ret e = NULL \<longrightarrow>
      filter (\<lambda>c. c = GlfwTerminate) (trace (main fuel e)) = [GlfwTerminate] \<and>
      last (trace (main fuel e)) = GlfwTerminate \<and>
      exit_status (main fuel e) = Some (- 1)) \<and>
   (glfwCreateWindow_ret e \<noteq> NULL \<and> gladLoadGLLoader_ret e = 0 \<longrightarrow>
      filter (\<lambda>c. c = GlfwTerminate) (trace (main fuel e)) = [] \<and>
      last (trace (main fuel e)) = Cout ''Failed to initialize GLAD\<newline>'' \<and>
      exit_status (main fuel e) = Some (- 1))"
  by (simp add: main_no_window main_no_loader bootstrap_calls_def)

theorem terminate_on_failure_paths_witness:
  "glfwCreateWindow_ret (sample_env\<lparr>glfwCreateWindow_ret := NULL\<rparr>) = NULL \<and>
   filter (\<lambda>c. c = GlfwTerminate)
     (trace (main 3 (sample_env\<lparr>glfwCreateWindow_ret := NULL\<rparr>))) = [GlfwTerminate] \<and>
   glfwCreateWindow_ret (sample_env\<lparr>gladLoadGLLoader_ret := 0\<rparr>) \<noteq> NULL \<and>
   gladLoadGLLoader_ret (sample_env\<lparr>gladLoadGLLoader_ret := 0\<rparr>) = 0 \<and>
   filter (\<lambda>c. c = GlfwTerminate)
     (trace (main 3 (sample_env\<lparr>gladLoadGLLoader_ret := 0\<rparr>))) = []"
  using terminate_on_failure_paths [of "sample_env\<lparr>glfwCreateWindow_ret := NULL\<rparr>" 3]
    terminate_on_failure_paths [of "sample_env\<lparr>gladLoadGLLoader_ret := 0\<rparr>" 3]
  by (simp add: sample_env_def NULL_def)

subsection \<open>Geometry upload\<close>

text \<open>
  C1. On the path that reaches the upload, the whole run creates one buffer name, binds
  it once to \<open>GL_ARRAY_BUFFER\<close> and writes buffer data once: the nine values
  -0.5, -0.5, 0, 0.5, -0.5, 0, 0, 0.5, 0 in this order, with a size of 36 bytes
  (3 vertices of 3 floats of 4 bytes) and the usage hint \<open>GL_STATIC_DRAW\<close>. No other
  call of the run creates, binds or writes a buffer, so the uploaded values are never
  changed afterwards.
\<close>

theorem geometry_upload:
  assumes "glfwCreateWindow_ret e \<noteq> NULL" and "gladLoadGLLoader_ret e \<noteq> 0"
  shows "filter is_buffer_call (trace (main fuel e)) =
           [GlGenBuffers 1,
            GlBindBuffer GL_ARRAY_BUFFER (glGenBuffers_out e),
            GlBufferData GL_ARRAY_BUFFER 36
              [- 0.5, - 0.5, 0, 0.5, - 0.5, 0, 0, 0.5, 0] GL_STATIC_DRAW] \<and>
         length verticies = 9 \<and>
         sizeof_verticies = 3 * 3 * 4"
proof -
  have loop: "filter is_buffer_call (snd (render_loop fuel e 0 w0)) = []" for w0
    by (rule render_loop_filter_nil) simp_all
  have shaders: "filter is_buffer_call (vertex_shader_calls e @ fragment_and_link_calls e) = []"
    by (simp add: vertex_shader_calls_def fragment_and_link_calls_def Let_def)
  have size: "sizeof_verticies = 36" "length verticies = 9"
    by (simp_all add: sizeof_verticies_def verticies_def sizeof_float_def)
  have upload: "filter is_buffer_call (upload_calls e) =
           [GlGenBuffers 1,
            GlBindBuffer GL_ARRAY_BUFFER (glGenBuffers_out e),
            GlBufferData GL_ARRAY_BUFFER 36
              [- 0.5, - 0.5, 0, 0.5, - 0.5, 0, 0, 0.5, 0] GL_STATIC_DRAW]"
    by (simp add: upload_calls_def size Let_def) (simp add: verticies_def)
  show ?thesis
    unfolding main_running [OF assms]
    using shaders upload
    by (simp add: loop size bootstrap_calls_def split: option.splits)
qed

theorem geometry_upload_witness:
  "glfwCreateWindow_ret sample_env \<noteq> NULL \<and>
   gladLoadGLLoader_ret sample_env \<noteq> 0 \<and>
   filter is_buffer_call (trace (main 4 sample_env)) =
     [GlGenBuffers 1,
      GlBindBuffer GL_ARRAY_BUFFER 1,
      GlBufferData GL_ARRAY_BUFFER 36
        [- 0.5, - 0.5, 0, 0.5, - 0.5, 0, 0, 0.5, 0] GL_STATIC_DRAW]"
  using geometry_upload [of sample_env 4]
  by (simp add: sample_env_def NULL_def)

subsection \<open>Shader build\<close>



text \<open>
  C3. The compile status of the fragment shader and the link status of the program are
  never queried: from the creation of the fragment shader on, the run makes no status
  query, fetches no log and prints nothing, and a run in which the fragment shader
  fails to compile or the program fails to link is the same run, call for call and
  with the same exit status.
\<close>

theorem fragment_and_link_status_never_queried:
  "main fuel (e\<lparr>fragment_compile_status := a, link_status := b\<rparr>) = main fuel e \<and>
   filter is_query_or_output
     (dropWhile (\<lambda>c. c \<noteq> GlCreateShader GL_FRAGMENT_SHADER) (trace (main fuel e))) = []"
proof
  show "main fuel (e\<lparr>fragment_compile_status := a, link_status := b\<rparr>) = main fuel e"
    by (rule main_env_cong) simp_all
  show "filter is_query_or_output
     (dropWhile (\<lambda>c. c \<noteq> GlCreateShader GL_FRAGMENT_SHADER) (trace (main fuel e))) = []"
  proof (cases "glfwCreateWindow_ret e = NULL")
    case True
    then show ?thesis by (simp add: main_no_window bootstrap_calls_def)
  next
    case window: False
    show ?thesis
    proof (cases "gladLoadGLLoader_ret e = 0")
      case True
      with window show ?thesis by (simp add: main_no_loader bootstrap_calls_def)
    next
      case False
      have loop: "filter is_query_or_output (snd (render_loop fuel e 0 w0)) = []" for w0
        by (rule render_loop_filter_nil) simp_all
      have before: "dropWhile (\<lambda>c. c \<noteq> GlCreateShader GL_FRAGMENT_SHADER)
          (bootstrap_calls @
           [GlfwMakeContextCurrent (glfwCreateWindow_ret e),
            GlfwSetFramebufferSizeCallback (glfwCreateWindow_ret e),
            GladLoadGLLoader] @ upload_calls e @ vertex_shader_calls e @
           fragment_and_link_calls e @ rest) = fragment_and_link_calls e @ rest" for rest
        by (simp add: bootstrap_calls_def upload_calls_def vertex_shader_calls_def
            fragment_and_link_calls_def Let_def)
      have link: "filter is_query_or_output (fragment_and_link_calls e) = []"
        by (simp add: fragment_and_link_calls_def Let_def)
      show ?thesis
        unfolding main_running [OF window False] outcome.simps before
        by (simp add: loop link split: option.splits)
    qed
  qed
qed

text \<open>
  C9. The fragment shader's embedded source begins with the misspelled directive
  \<open>#verson\<close>, not \<open>#version\<close>: its first line is exactly \<open>#verson 460 core\<close>, and this is
  the text that \<open>main\<close> hands to \<open>glShaderSource\<close> for the fragment shader.
\<close>

theorem fragment_source_misspelled_directive:
  "first_line fragmentShaderSource = ''#verson 460 core'' \<and>
   prefix ''#verson'' fragmentShaderSource \<and>
   \<not> prefix ''#version'' fragmentShaderSource \<and>
   first_line (c_str fragmentShaderSource) = ''#verson 460 core'' \<and>
   fragment_and_link_calls e ! 1 =
     GlShaderSource (glCreateShader_ret e GL_FRAGMENT_SHADER) 1 (c_str fragmentShaderSource)"
  by (simp add: first_line_def fragmentShaderSource_def c_str_def fragment_and_link_calls_def
      Let_def)

subsection \<open>Render loop\<close>

text \<open>
  C4. No run of \<open>main\<close> activates a program object or issues a draw call, before or
  inside the render loop, the resize callback included; the only graphics commands that
  the loop body issues are, once per iteration, the clear colour (0.2, 0.3, 0.3, 1.0)
  and the clear of the colour buffer. (The one other graphics call during the loop is
  the viewport call of the resize callback, which runs inside the event poll.)
\<close>

theorem no_use_program_no_draw:
  "filter is_use_or_draw (trace (main fuel e)) = [] \<and>
   (\<exists>k. k \<le> n \<and>
      filter (\<lambda>c. is_gl_call c \<and> \<not> is_viewport_call c) (snd (render_loop n e i w)) =
        concat (replicate k [GlClearColor 0.2 0.3 0.3 1.0, GlClear GL_COLOR_BUFFER_BIT]))"
proof
  show "filter is_use_or_draw (trace (main fuel e)) = []"
  proof (cases "glfwCreateWindow_ret e = NULL")
    case True
    then show ?thesis by (simp add: main_no_window bootstrap_calls_def)
  next
    case window: False
    show ?thesis
    proof (cases "gladLoadGLLoader_ret e = 0")
      case True
      with window show ?thesis by (simp add: main_no_loader bootstrap_calls_def)
    next
      case False
      have loop: "filter is_use_or_draw (snd (render_loop fuel e 0 w0)) = []" for w0
        by (rule render_loop_filter_nil) simp_all
      show ?thesis
        unfolding main_running [OF window False]
        using setup_filter_use_or_draw [of e]
        by (simp add: loop bootstrap_calls_def split: option.splits)
    qed
  qed
  show "\<exists>k. k \<le> n \<and>
      filter (\<lambda>c. is_gl_call c \<and> \<not> is_viewport_call c) (snd (render_loop n e i w)) =
        concat (replicate k [GlClearColor 0.2 0.3 0.3 1.0, GlClear GL_COLOR_BUFFER_BIT])"
    by (rule render_loop_gl_calls)
qed

text \<open>
  C5. When the key query of an iteration reports Escape as pressed, \<open>processInput\<close> sets
  the window's close flag, and the render loop finishes that iteration and leaves at the
  next evaluation of its condition: from the top of that iteration it makes exactly the
  calls listed (the seven of the iteration, the viewport calls of the resize callback
  during the event poll, and the evaluation of the condition) and ends with the close
  flag set.
\<close>

theorem escape_closes_within_one_iteration:
  assumes "glfwGetKey_ret e i = GLFW_PRESS" and "\<not> shouldClose w"
  shows "shouldClose (fst (processInput e i w)) \<and>
         GlfwSetWindowShouldClose (handle w) True \<in> set (snd (processInput e i w)) \<and>
         render_loop (Suc (Suc n)) e i w =
           (Some (w\<lparr>shouldClose := True\<rparr>),
            [GlfwWindowShouldClose (handle w),
             GlfwGetKey (handle w) GLFW_KEY_ESCAPE,
             GlfwSetWindowShouldClose (handle w) True,
             GlClearColor 0.2 0.3 0.3 1.0,
             GlClear GL_COLOR_BUFFER_BIT,
             GlfwSwapBuffers (handle w),
             GlfwPollEvents] @
            map (\<lambda>(width, height). GlViewport 0 0 width height) (resize_events e i) @
            [GlfwWindowShouldClose (handle w)])"
proof -
  have p: "processInput e i w =
      (w\<lparr>shouldClose := True\<rparr>,
       [GlfwGetKey (handle w) GLFW_KEY_ESCAPE, GlfwSetWindowShouldClose (handle w) True])"
    using assms(1) by (simp add: processInput_def)
  have q: "glfwPollEvents e i (w\<lparr>shouldClose := True\<rparr>) =
      (w\<lparr>shouldClose := True\<rparr>,
       map (\<lambda>(width, height). GlViewport 0 0 width height) (resize_events e i))"
    using callback_calls_map [of e i "w\<lparr>shouldClose := True\<rparr>"]
    by (simp add: glfwPollEvents_def)
  show ?thesis
    unfolding render_loop_Suc_running [OF assms(2)] p
    by (simp add: q)
qed

theorem escape_closes_within_one_iteration_witness:
  "glfwGetKey_ret (sample_env\<lparr>glfwGetKey_ret := (\<lambda>i. if i = 2 then 1 else 0)\<rparr>) 2 = GLFW_PRESS \<and>
   \<not> shouldClose \<lparr>handle = 4096, shouldClose = False\<rparr> \<and>
   fst (render_loop 2 (sample_env\<lparr>glfwGetKey_ret := (\<lambda>i. if i = 2 then 1 else 0)\<rparr>) 2
          \<lparr>handle = 4096, shouldClose = False\<rparr>) =
     Some \<lparr>handle = 4096, shouldClose = True\<rparr>"
  using escape_closes_within_one_iteration
    [of "sample_env\<lparr>glfwGetKey_ret := (\<lambda>i. if i = 2 then 1 else 0)\<rparr>" 2
        "\<lparr>handle = 4096, shouldClose = False\<rparr>" 0]
  by (simp add: GLFW_PRESS_def numeral_2_eq_2)

text \<open>
  C6. Apart from the writes of the close flag by \<open>processInput\<close> and the viewport calls
  that the resize callback makes during the event poll, the calls of the render loop
  are exactly these: for each iteration, in this order and once each, the evaluation of
  the loop condition, the key query of \<open>processInput\<close>, the clear colour
  (0.2, 0.3, 0.3, 1.0), the clear of the colour buffer, the buffer swap and the event
  poll; and at the end the one evaluation of the condition that leaves the loop. While
  the loop is still running after \<open>n\<close> evaluations of its condition, exactly \<open>n\<close> such
  iterations have run; when it has been left, fewer than \<open>n\<close>. The same holds for
  these calls in the trace of \<open>main\<close> on the path that reaches the loop. Consequently
  the frame calls alone are whole frames, in the loop and in every trace of \<open>main\<close>.
\<close>

theorem every_iteration_one_frame:
  "(\<exists>k. filter (\<lambda>c. \<not> is_close_flag_write c \<and> \<not> is_viewport_call c)
           (snd (render_loop n e i w)) =
         concat (replicate k
           [GlfwWindowShouldClose (handle w),
            GlfwGetKey (handle w) GLFW_KEY_ESCAPE,
            GlClearColor 0.2 0.3 0.3 1.0,
            GlClear GL_COLOR_BUFFER_BIT,
            GlfwSwapBuffers (handle w),
            GlfwPollEvents]) @
         (case fst (render_loop n e i w) of
            None \<Rightarrow> [] | Some w' \<Rightarrow> [GlfwWindowShouldClose (handle w)]) \<and>
       (fst (render_loop n e i w) = None \<longrightarrow> k = n) \<and>
       (fst (render_loop n e i w) \<noteq> None \<longrightarrow> k < n)) \<and>
   (glfwCreateWindow_ret e \<noteq> NULL \<and> gladLoadGLLoader_ret e \<noteq> 0 \<longrightarrow>
      (\<exists>k. filter (\<lambda>c. is_condition_check c \<or> is_frame_call c) (trace (main fuel e)) =
            concat (replicate k
              [GlfwWindowShouldClose (glfwCreateWindow_ret e),
               GlfwGetKey (glfwCreateWindow_ret e) GLFW_KEY_ESCAPE,
               GlClearColor 0.2 0.3 0.3 1.0,
               GlClear GL_COLOR_BUFFER_BIT,
               GlfwSwapBuffers (glfwCreateWindow_ret e),
               GlfwPollEvents]) @
            (case exit_status (main fuel e) of
               None \<Rightarrow> [] | Some s \<Rightarrow> [GlfwWindowShouldClose (glfwCreateWindow_ret e)]) \<and>
          (exit_status (main fuel e) = None \<longrightarrow> k = fuel) \<and>
          (exit_status (main fuel e) \<noteq> None \<longrightarrow> k < fuel))) \<and>
   (\<exists>k. k \<le> n \<and>
      filter (\<lambda>c. \<not> is_close_flag_call c \<and> \<not> is_viewport_call c)
        (snd (render_loop n e i w)) =
        concat (replicate k
          [GlfwGetKey (handle w) GLFW_KEY_ESCAPE,
           GlClearColor 0.2 0.3 0.3 1.0,
           GlClear GL_COLOR_BUFFER_BIT,
           GlfwSwapBuffers (handle w),
           GlfwPollEvents])) \<and>
   (\<exists>k. k \<le> fuel \<and>
      filter is_frame_call (trace (main fuel e)) =
        concat (replicate k
          [GlfwGetKey (glfwCreateWindow_ret e) GLFW_KEY_ESCAPE,
           GlClearColor 0.2 0.3 0.3 1.0,
           GlClear GL_COLOR_BUFFER_BIT,
           GlfwSwapBuffers (glfwCreateWindow_ret e),
           GlfwPollEvents]))"
proof (intro conjI impI)
  show "\<exists>k. filter (\<lambda>c. \<not> is_close_flag_write c \<and> \<not> is_viewport_call c)
           (snd (render_loop n e i w)) =
         concat (replicate k
           [GlfwWindowShouldClose (handle w),
            GlfwGetKey (handle w) GLFW_KEY_ESCAPE,
            GlClearColor 0.2 0.3 0.3 1.0,
            GlClear GL_COLOR_BUFFER_BIT,
            GlfwSwapBuffers (handle w),
            GlfwPollEvents]) @
         (case fst (render_loop n e i w) of
            None \<Rightarrow> [] | Some w' \<Rightarrow> [GlfwWindowShouldClose (handle w)]) \<and>
       (fst (render_loop n e i w) = None \<longrightarrow> k = n) \<and>
       (fst (render_loop n e i w) \<noteq> None \<longrightarrow> k < n)"
    by (rule render_loop_iterations)
  show "\<exists>k. k \<le> n \<and>
      filter (\<lambda>c. \<not> is_close_flag_call c \<and> \<not> is_viewport_call c)
        (snd (render_loop n e i w)) =
        concat (replicate k
          [GlfwGetKey (handle w) GLFW_KEY_ESCAPE,
           GlClearColor 0.2 0.3 0.3 1.0,
           GlClear GL_COLOR_BUFFER_BIT,
           GlfwSwapBuffers (handle w),
           GlfwPollEvents])"
    by (rule render_loop_frames)
  let ?frame = "[GlfwGetKey (glfwCreateWindow_ret e) GLFW_KEY_ESCAPE,
           GlClearColor 0.2 0.3 0.3 1.0,
           GlClear GL_COLOR_BUFFER_BIT,
           GlfwSwapBuffers (glfwCreateWindow_ret e),
           GlfwPollEvents]"
  let ?w0 = "\<lparr>handle = glfwCreateWindow_ret e, shouldClose = initial_close_flag e\<rparr>"
  have none: "\<exists>k. k \<le> fuel \<and> xs = concat (replicate k ?frame)" if "xs = []" for xs
    using that by (intro exI [of _ 0]) simp
  show "\<exists>k. k \<le> fuel \<and> filter is_frame_call (trace (main fuel e)) =
      concat (replicate k ?frame)"
  proof (cases "glfwCreateWindow_ret e = NULL")
    case True
    then show ?thesis by (intro none) (simp add: main_no_window bootstrap_calls_def)
  next
    case window: False
    show ?thesis
    proof (cases "gladLoadGLLoader_ret e = 0")
      case True
      with window show ?thesis by (intro none) (simp add: main_no_loader bootstrap_calls_def)
    next
      case False
      from render_loop_frame_calls [of fuel e 0 ?w0] obtain k where k: "k \<le> fuel"
        "filter is_frame_call (snd (render_loop fuel e 0 ?w0)) = concat (replicate k ?frame)"
        by auto
      have pre: "filter is_frame_call
          (upload_calls e @ vertex_shader_calls e @ fragment_and_link_calls e) = []"
        by (simp add: upload_calls_def vertex_shader_calls_def fragment_and_link_calls_def
            Let_def)
      have "filter is_frame_call (trace (main fuel e)) = concat (replicate k ?frame)"
        unfolding main_running [OF window False]
        using pre k(2) by (simp add: bootstrap_calls_def split: option.splits)
      with k(1) show ?thesis by blast
    qed
  qed
  let ?iter = "[GlfwWindowShouldClose (glfwCreateWindow_ret e),
               GlfwGetKey (glfwCreateWindow_ret e) GLFW_KEY_ESCAPE,
               GlClearColor 0.2 0.3 0.3 1.0,
               GlClear GL_COLOR_BUFFER_BIT,
               GlfwSwapBuffers (glfwCreateWindow_ret e),
               GlfwPollEvents]"
  let ?loop = "\<lambda>c. is_condition_check c \<or> is_frame_call c"
  assume reach: "glfwCreateWindow_ret e \<noteq> NULL \<and> gladLoadGLLoader_ret e \<noteq> 0"
  then have window: "glfwCreateWindow_ret e \<noteq> NULL" and loader: "gladLoadGLLoader_ret e \<noteq> 0"
    by simp_all
  let ?r = "render_loop fuel e 0 ?w0"
  from render_loop_iterations [of fuel e 0 ?w0] obtain k where k:
    "filter (\<lambda>c. \<not> is_close_flag_write c \<and> \<not> is_viewport_call c) (snd ?r) =
       concat (replicate k ?iter) @
       (case fst ?r of None \<Rightarrow> [] | Some w' \<Rightarrow> [GlfwWindowShouldClose (glfwCreateWindow_ret e)])"
    "fst ?r = None \<longrightarrow> k = fuel" "fst ?r \<noteq> None \<longrightarrow> k < fuel"
    by auto
  have "filter ?loop (snd ?r) =
      filter ?loop (concat (replicate k ?iter) @
       (case fst ?r of None \<Rightarrow> [] | Some w' \<Rightarrow> [GlfwWindowShouldClose (glfwCreateWindow_ret e)]))"
    using filter_loop_calls_after [of "snd ?r"] k(1) by simp
  also have "\<dots> = concat (replicate k ?iter) @
       (case fst ?r of None \<Rightarrow> [] | Some w' \<Rightarrow> [GlfwWindowShouldClose (glfwCreateWindow_ret e)])"
    by (simp add: filter_concat split: option.splits)
  finally have loop: "filter ?loop (snd ?r) = concat (replicate k ?iter) @
       (case fst ?r of None \<Rightarrow> [] | Some w' \<Rightarrow> [GlfwWindowShouldClose (glfwCreateWindow_ret e)])" .
  have pre: "filter ?loop
      (upload_calls e @ vertex_shader_calls e @ fragment_and_link_calls e) = []"
    by (simp add: upload_calls_def vertex_shader_calls_def fragment_and_link_calls_def
        Let_def)
  have tr: "filter ?loop (trace (main fuel e)) = concat (replicate k ?iter) @
       (case exit_status (main fuel e) of
          None \<Rightarrow> [] | Some s \<Rightarrow> [GlfwWindowShouldClose (glfwCreateWindow_ret e)])"
    unfolding main_running [OF window loader]
    using pre by (simp add: loop bootstrap_calls_def split: option.splits)
  have ex: "exit_status (main fuel e) = None \<longleftrightarrow> fst ?r = None"
    unfolding main_running [OF window loader] by (simp split: option.splits)
  show "\<exists>k. filter ?loop (trace (main fuel e)) = concat (replicate k ?iter) @
            (case exit_status (main fuel e) of
               None \<Rightarrow> [] | Some s \<Rightarrow> [GlfwWindowShouldClose (glfwCreateWindow_ret e)]) \<and>
          (exit_status (main fuel e) = None \<longrightarrow> k = fuel) \<and>
          (exit_status (main fuel e) \<noteq> None \<longrightarrow> k < fuel)"
    using tr k(2,3) ex by (intro exI [of _ k]) simp
qed

theorem every_iteration_one_frame_witness:
  "glfwCreateWindow_ret sample_env \<noteq> NULL \<and>
   gladLoadGLLoader_ret sample_env \<noteq> 0 \<and>
   exit_status (main 2 sample_env) = None \<and>
   filter (\<lambda>c. is_condition_check c \<or> is_frame_call c) (trace (main 2 sample_env)) =
     [GlfwWindowShouldClose 4096, GlfwGetKey 4096 GLFW_KEY_ESCAPE,
      GlClearColor 0.2 0.3 0.3 1.0, GlClear GL_COLOR_BUFFER_BIT,
      GlfwSwapBuffers 4096, GlfwPollEvents,
      GlfwWindowShouldClose 4096, GlfwGetKey 4096 GLFW_KEY_ESCAPE,
      GlClearColor 0.2 0.3 0.3 1.0, GlClear GL_COLOR_BUFFER_BIT,
      GlfwSwapBuffers 4096, GlfwPollEvents]"
proof -
  have reach: "glfwCreateWindow_ret sample_env \<noteq> NULL \<and> gladLoadGLLoader_ret sample_env \<noteq> 0"
    by (simp add: sample_env_def NULL_def)
  have running: "exit_status (main 2 sample_env) = None"
    by (simp add: main_def sample_env_def NULL_def numeral_2_eq_2 processInput_def
        glfwPollEvents_def GLFW_PRESS_def GLFW_RELEASE_def Let_def)
  from every_iteration_one_frame [of 0 sample_env 0 "\<lparr>handle = 4096, shouldClose = False\<rparr>" 2]
    reach running
  have "filter (\<lambda>c. is_condition_check c \<or> is_frame_call c) (trace (main 2 sample_env)) =
      concat (replicate 2
        [GlfwWindowShouldClose (glfwCreateWindow_ret sample_env),
         GlfwGetKey (glfwCreateWindow_ret sample_env) GLFW_KEY_ESCAPE,
         GlClearColor 0.2 0.3 0.3 1.0, GlClear GL_COLOR_BUFFER_BIT,
         GlfwSwapBuffers (glfwCreateWindow_ret sample_env), GlfwPollEvents])"
    by auto
  then show ?thesis
    using reach running by (simp add: sample_env_def numeral_2_eq_2)
qed

end
